theory Spec2Isabelle
  imports Complex_Main
begin

section \<open>Library example: time and books\<close>

text \<open>
  A \<open>datetime\<close> value is modelled as the number of microseconds since a fixed
  epoch.  The difference of two of them is a \<open>timedelta\<close>, whose \<open>days\<close> attribute
  is the floor of the difference divided by one day (a negative difference of one
  microsecond has \<open>days = -1\<close>).  Every call of \<open>datetime.now()\<close> in the source is an
  explicit clock reading passed to the model.
\<close>

type_synonym datetime = int

definition timedelta_days :: "datetime \<Rightarrow> datetime \<Rightarrow> int" where
  "timedelta_days ahora antes = (ahora - antes) div 86400000000"

text \<open>
  The two concrete subclasses of the abstract class \<open>Libro\<close>, each with the
  attributes it adds.  Sizes and amounts of money are Python floats in the source;
  they are modelled as exact rationals.
\<close>

datatype clase_libro =
    LibroFisico (ubicacion: string) (estado_fisico: string) (numero_paginas: int)
  | LibroDigital (formato: string) (tamanio_mb: rat) (url_descarga: string) (descargas: int)

text \<open>
  A book.  \<open>usuario_actual\<close> is a reference to a user object (its identity), absent
  when it is \<open>None\<close> in the source.
\<close>

record libro =
  titulo :: string
  autor :: string
  isbn :: string
  anio_publicacion :: int
  disponible :: bool
  fecha_prestamo :: "datetime option"
  usuario_actual :: "nat option"
  clase :: clase_libro

definition Libro_init :: "string \<Rightarrow> string \<Rightarrow> string \<Rightarrow> int \<Rightarrow> clase_libro \<Rightarrow> libro" where
  "Libro_init t a i anio c =
     \<lparr>titulo = t, autor = a, isbn = i, anio_publicacion = anio, disponible = True,
      fecha_prestamo = None, usuario_actual = None, clase = c\<rparr>"

text \<open>Default values of constructor arguments are supplied by the caller.\<close>

definition LibroFisico_init ::
  "string \<Rightarrow> string \<Rightarrow> string \<Rightarrow> int \<Rightarrow> string \<Rightarrow> string \<Rightarrow> int \<Rightarrow> libro" where
  "LibroFisico_init t a i anio ubic estado paginas =
     Libro_init t a i anio (LibroFisico ubic estado paginas)"

text \<open>\<open>str.upper\<close> on the ASCII letters; other bytes are left as they are.\<close>

definition upper_char :: "char \<Rightarrow> char" where
  "upper_char c =
     (let n = of_char c :: nat in if 97 \<le> n \<and> n \<le> 122 then char_of (n - 32) else c)"

definition upper :: "string \<Rightarrow> string" where
  "upper s = map upper_char s"

definition LibroDigital_init ::
  "string \<Rightarrow> string \<Rightarrow> string \<Rightarrow> int \<Rightarrow> string \<Rightarrow> rat \<Rightarrow> string \<Rightarrow> libro" where
  "LibroDigital_init t a i anio fmt tam url =
     Libro_init t a i anio (LibroDigital (upper fmt) tam url 0)"

definition calcular_dias_prestamo :: "libro \<Rightarrow> int" where
  "calcular_dias_prestamo b =
     (case clase b of LibroFisico _ _ _ \<Rightarrow> 14 | LibroDigital _ _ _ _ \<Rightarrow> 7)"

text \<open>The type tags are UTF-8 strings; the accented letter is written as its two bytes.\<close>

definition obtener_tipo :: "libro \<Rightarrow> string" where
  "obtener_tipo b =
     (case clase b of
        LibroFisico _ _ _ \<Rightarrow> ''Libro F'' @ [char_of (195::nat), char_of (173::nat)] @ ''sico''
      | LibroDigital _ _ _ _ \<Rightarrow> ''Libro Digital'')"

text \<open>
  \<open>Libro.prestar\<close>: the clock reading, the borrowing user's identity and the book;
  returns the boolean result and the book after the call.
\<close>

definition prestar :: "datetime \<Rightarrow> nat \<Rightarrow> libro \<Rightarrow> bool \<times> libro" where
  "prestar ahora usuario b =
     (if disponible b
      then (True, b\<lparr>disponible := False, fecha_prestamo := Some ahora,
                     usuario_actual := Some usuario\<rparr>)
      else (False, b))"

text \<open>
  \<open>Libro.devolver\<close>.  Subtracting \<open>None\<close> from a \<open>datetime\<close> raises \<open>TypeError\<close>
  before any attribute is written.
\<close>

datatype error = TypeError | AttributeError

definition devolver :: "datetime \<Rightarrow> libro \<Rightarrow> error + ((int \<times> nat option) \<times> libro)" where
  "devolver ahora b =
     (if \<not> disponible b then
        (case fecha_prestamo b of
           None \<Rightarrow> Inl TypeError
         | Some f \<Rightarrow>
             (let dias_prestado = timedelta_days ahora f;
                  dias_limite = calcular_dias_prestamo b;
                  dias_retraso = max 0 (dias_prestado - dias_limite);
                  usuario_devolvio = usuario_actual b
              in Inr ((dias_retraso, usuario_devolvio),
                      b\<lparr>disponible := True, fecha_prestamo := None, usuario_actual := None\<rparr>)))
      else Inr ((0, None), b))"

text \<open>
  The mutators of the two subclasses; none of them touches the loan state.  A method of
  one subclass does not exist on an object of the other: the call raises
  \<open>AttributeError\<close>.
\<close>

definition cambiar_ubicacion :: "string \<Rightarrow> libro \<Rightarrow> error + libro" where
  "cambiar_ubicacion nueva b =
     (case clase b of
        LibroFisico u e n \<Rightarrow> Inr (b\<lparr>clase := LibroFisico nueva e n\<rparr>)
      | LibroDigital _ _ _ _ \<Rightarrow> Inl AttributeError)"

definition actualizar_estado_fisico :: "string \<Rightarrow> libro \<Rightarrow> error + libro" where
  "actualizar_estado_fisico nuevo b =
     (case clase b of
        LibroFisico u e n \<Rightarrow> Inr (b\<lparr>clase := LibroFisico u nuevo n\<rparr>)
      | LibroDigital _ _ _ _ \<Rightarrow> Inl AttributeError)"

definition registrar_descarga :: "libro \<Rightarrow> error + libro" where
  "registrar_descarga b =
     (case clase b of
        LibroFisico _ _ _ \<Rightarrow> Inl AttributeError
      | LibroDigital f t u d \<Rightarrow> Inr (b\<lparr>clase := LibroDigital f t u (d + 1)\<rparr>))"

section \<open>Library example: users\<close>

text \<open>
  An entry of the loan history: a dictionary with five keys when it is created and two
  more (\<open>fecha_devolucion\<close>, \<open>dias_retraso\<close>) once the loan is closed.  The key
  \<open>fecha_prestamo\<close> is the field \<open>fecha_prestamo_reg\<close>.
\<close>

record prestamo =
  libro_titulo :: string
  libro_isbn :: string
  fecha_prestamo_reg :: datetime
  tipo_libro :: string
  devuelto :: bool
  fecha_devolucion :: "datetime option"
  dias_retraso :: "int option"

datatype clase_usuario =
    Estudiante (carrera: string) (semestre: int)
  | Profesor (departamento: string) (titulo_academico: string)

record usuario =
  nombre :: string
  identificacion :: string
  email :: string
  fecha_registro :: datetime
  historial_prestamos :: "prestamo list"
  multa_acumulada :: rat
  clase_u :: clase_usuario

text \<open>
  Books, users and lists are objects with an identity, and several references may point
  to the same object.  The world maps each identity to the object's current state.  The
  list object that a user's constructor stores in \<open>_libros_prestados\<close> (the attribute is
  never assigned again) has the identity \<open>Interna u\<close> for the user \<open>u\<close>; a list object
  made by \<open>list.copy()\<close> gets the next unused identity \<open>Copia n\<close>.  A list of books
  holds references: the identities of the books.
\<close>

datatype lista_id = Interna nat | Copia nat

record mundo =
  libros :: "nat \<Rightarrow> libro"
  usuarios :: "nat \<Rightarrow> usuario"
  listas :: "lista_id \<Rightarrow> nat list"
  siguiente :: nat

text \<open>The constructors create the user object with identity \<open>u\<close>.\<close>

definition Usuario_init ::
  "datetime \<Rightarrow> nat \<Rightarrow> string \<Rightarrow> string \<Rightarrow> string \<Rightarrow> clase_usuario \<Rightarrow> mundo \<Rightarrow> mundo" where
  "Usuario_init ahora u n i e c s =
     s\<lparr>usuarios := (usuarios s)(u :=
          \<lparr>nombre = n, identificacion = i, email = e, fecha_registro = ahora,
           historial_prestamos = [], multa_acumulada = 0, clase_u = c\<rparr>),
       listas := (listas s)(Interna u := [])\<rparr>"

definition Estudiante_init ::
  "datetime \<Rightarrow> nat \<Rightarrow> string \<Rightarrow> string \<Rightarrow> string \<Rightarrow> string \<Rightarrow> int \<Rightarrow> mundo \<Rightarrow> mundo" where
  "Estudiante_init ahora u n i e c sem s = Usuario_init ahora u n i e (Estudiante c sem) s"

definition Profesor_init ::
  "datetime \<Rightarrow> nat \<Rightarrow> string \<Rightarrow> string \<Rightarrow> string \<Rightarrow> string \<Rightarrow> string \<Rightarrow> mundo \<Rightarrow> mundo" where
  "Profesor_init ahora u n i e d t s = Usuario_init ahora u n i e (Profesor d t) s"

definition limite_prestamos :: "usuario \<Rightarrow> int" where
  "limite_prestamos usr = (case clase_u usr of Estudiante _ _ \<Rightarrow> 3 | Profesor _ _ \<Rightarrow> 10)"

definition calcular_multa_por_dia :: "usuario \<Rightarrow> rat" where
  "calcular_multa_por_dia usr = (case clase_u usr of Estudiante _ _ \<Rightarrow> 1 / 2 | Profesor _ _ \<Rightarrow> 1)"

definition obtener_tipo_usuario :: "usuario \<Rightarrow> string" where
  "obtener_tipo_usuario usr =
     (case clase_u usr of Estudiante _ _ \<Rightarrow> ''Estudiante'' | Profesor _ _ \<Rightarrow> ''Profesor'')"

definition puede_prestar :: "nat \<Rightarrow> mundo \<Rightarrow> bool" where
  "puede_prestar u s =
     (let dentro_limite = int (length (listas s (Interna u))) < limite_prestamos (usuarios s u);
          sin_multas = (multa_acumulada (usuarios s u) = 0)
      in dentro_limite \<and> sin_multas)"

text \<open>
  \<open>Usuario.prestar_libro\<close>.  The two clock readings are the one inside
  \<open>Libro.prestar\<close> and the one stored in the history entry.  The conjunction of the
  source evaluates \<open>libro.prestar(self)\<close> only when \<open>puede_prestar()\<close> is true.
\<close>

definition prestar_libro :: "datetime \<Rightarrow> datetime \<Rightarrow> nat \<Rightarrow> nat \<Rightarrow> mundo \<Rightarrow> bool \<times> mundo" where
  "prestar_libro ahora1 ahora2 u l s =
     (if puede_prestar u s then
        (case prestar ahora1 u (libros s l) of
           (True, b') \<Rightarrow>
             (let usr = usuarios s u;
                  registro = \<lparr>libro_titulo = titulo b', libro_isbn = isbn b',
                              fecha_prestamo_reg = ahora2, tipo_libro = obtener_tipo b',
                              devuelto = False, fecha_devolucion = None, dias_retraso = None\<rparr>
              in (True,
                  s\<lparr>libros := (libros s)(l := b'),
                    usuarios := (usuarios s)(u :=
                      usr\<lparr>historial_prestamos := historial_prestamos usr @ [registro]\<rparr>),
                    listas := (listas s)(Interna u := listas s (Interna u) @ [l])\<rparr>))
         | (False, b') \<Rightarrow> (False, s\<lparr>libros := (libros s)(l := b')\<rparr>))
      else (False, s))"

text \<open>
  The loop of \<open>devolver_libro\<close> over \<open>reversed(self._historial_prestamos)\<close>:
  \<open>cerrar_primero\<close> walks the reversed list and closes the first open entry with the
  book's ISBN, then stops.
\<close>

fun cerrar_primero :: "string \<Rightarrow> datetime \<Rightarrow> int \<Rightarrow> prestamo list \<Rightarrow> prestamo list" where
  "cerrar_primero i ahora d [] = []"
| "cerrar_primero i ahora d (p # ps) =
     (if libro_isbn p = i \<and> \<not> devuelto p
      then p\<lparr>devuelto := True, fecha_devolucion := Some ahora, dias_retraso := Some d\<rparr> # ps
      else p # cerrar_primero i ahora d ps)"

definition actualizar_historial :: "string \<Rightarrow> datetime \<Rightarrow> int \<Rightarrow> prestamo list \<Rightarrow> prestamo list" where
  "actualizar_historial i ahora d h = rev (cerrar_primero i ahora d (rev h))"

text \<open>
  \<open>Usuario.devolver_libro\<close>.  Membership in the list compares books by identity
  (\<open>Libro\<close> defines no \<open>__eq__\<close>), and \<open>list.remove\<close> deletes the first occurrence.
  The first clock reading is the one inside \<open>Libro.devolver\<close>, the second the one
  written into the history entry.
\<close>

definition devolver_libro ::
  "datetime \<Rightarrow> datetime \<Rightarrow> nat \<Rightarrow> nat \<Rightarrow> mundo \<Rightarrow> error + (rat \<times> mundo)" where
  "devolver_libro ahora1 ahora2 u l s =
     (if l \<in> set (listas s (Interna u)) then
        (case devolver ahora1 (libros s l) of
           Inl e \<Rightarrow> Inl e
         | Inr ((dias, _), b') \<Rightarrow>
             (let usr = usuarios s u;
                  usr1 = usr\<lparr>historial_prestamos :=
                           actualizar_historial (isbn b') ahora2 dias (historial_prestamos usr)\<rparr>;
                  multa = (if dias > 0 then of_int dias * calcular_multa_por_dia usr else 0);
                  usr2 = (if dias > 0
                          then usr1\<lparr>multa_acumulada := multa_acumulada usr1 + multa\<rparr>
                          else usr1)
              in Inr (multa,
                      s\<lparr>libros := (libros s)(l := b'),
                        usuarios := (usuarios s)(u := usr2),
                        listas := (listas s)(Interna u := remove1 l (listas s (Interna u)))\<rparr>)))
      else Inr (0, s))"

definition pagar_multa :: "rat \<Rightarrow> nat \<Rightarrow> mundo \<Rightarrow> rat \<times> mundo" where
  "pagar_multa cantidad u s =
     (if cantidad > 0 then
        (let usr = usuarios s u;
             usr' = usr\<lparr>multa_acumulada := max 0 (multa_acumulada usr - cantidad)\<rparr>
         in (multa_acumulada usr', s\<lparr>usuarios := (usuarios s)(u := usr')\<rparr>))
      else (multa_acumulada (usuarios s u), s))"

text \<open>The property \<open>libros_prestados\<close>: a new list object with the same elements.\<close>

definition libros_prestados :: "nat \<Rightarrow> mundo \<Rightarrow> lista_id \<times> mundo" where
  "libros_prestados u s =
     (Copia (siguiente s),
      s\<lparr>listas := (listas s)(Copia (siguiente s) := listas s (Interna u)),
        siguiente := Suc (siguiente s)\<rparr>)"

text \<open>The mutators of the two user subclasses.\<close>

definition avanzar_semestre :: "usuario \<Rightarrow> error + usuario" where
  "avanzar_semestre usr =
     (case clase_u usr of
        Estudiante c n \<Rightarrow> Inr (usr\<lparr>clase_u := Estudiante c (n + 1)\<rparr>)
      | Profesor _ _ \<Rightarrow> Inl AttributeError)"

definition cambiar_carrera :: "string \<Rightarrow> usuario \<Rightarrow> error + usuario" where
  "cambiar_carrera nueva usr =
     (case clase_u usr of
        Estudiante c n \<Rightarrow> Inr (usr\<lparr>clase_u := Estudiante nueva n\<rparr>)
      | Profesor _ _ \<Rightarrow> Inl AttributeError)"

definition cambiar_departamento :: "string \<Rightarrow> usuario \<Rightarrow> error + usuario" where
  "cambiar_departamento nuevo usr =
     (case clase_u usr of
        Estudiante _ _ \<Rightarrow> Inl AttributeError
      | Profesor d t \<Rightarrow> Inr (usr\<lparr>clase_u := Profesor nuevo t\<rparr>))"

section \<open>Library example: sequences of calls\<close>

text \<open>
  One call of the public interface by a client: the methods of a user, the methods of a
  book called directly, reading the property \<open>libros_prestados\<close>, and any mutation of
  a list object obtained from that property (whatever the mutation is, the list object
  has some new contents afterwards).  Clock readings are arguments.
\<close>

datatype operacion =
    OpPrestarLibro datetime datetime nat nat
  | OpDevolverLibro datetime datetime nat nat
  | OpPagarMulta nat rat
  | OpLibrosPrestados nat
  | OpMutarCopia nat "nat list"
  | OpPrestar datetime nat nat
  | OpDevolver datetime nat
  | OpCambiarUbicacion nat string
  | OpActualizarEstadoFisico nat string
  | OpRegistrarDescarga nat
  | OpAvanzarSemestre nat
  | OpCambiarCarrera nat string
  | OpCambiarDepartamento nat string

datatype resultado =
    RBool bool
  | RMulta rat
  | RDevolucion int "nat option"
  | RLista lista_id
  | RNone

definition en_libro :: "nat \<Rightarrow> error + libro \<Rightarrow> mundo \<Rightarrow> error + (resultado \<times> mundo)" where
  "en_libro l r s =
     (case r of Inl e \<Rightarrow> Inl e | Inr b' \<Rightarrow> Inr (RNone, s\<lparr>libros := (libros s)(l := b')\<rparr>))"

definition en_usuario :: "nat \<Rightarrow> error + usuario \<Rightarrow> mundo \<Rightarrow> error + (resultado \<times> mundo)" where
  "en_usuario u r s =
     (case r of Inl e \<Rightarrow> Inl e | Inr usr' \<Rightarrow> Inr (RNone, s\<lparr>usuarios := (usuarios s)(u := usr')\<rparr>))"

fun paso :: "operacion \<Rightarrow> mundo \<Rightarrow> error + (resultado \<times> mundo)" where
  "paso (OpPrestarLibro a1 a2 u l) s =
     (case prestar_libro a1 a2 u l s of (r, s') \<Rightarrow> Inr (RBool r, s'))"
| "paso (OpDevolverLibro a1 a2 u l) s =
     (case devolver_libro a1 a2 u l s of Inl e \<Rightarrow> Inl e | Inr (m, s') \<Rightarrow> Inr (RMulta m, s'))"
| "paso (OpPagarMulta u c) s =
     (case pagar_multa c u s of (m, s') \<Rightarrow> Inr (RMulta m, s'))"
| "paso (OpLibrosPrestados u) s =
     (case libros_prestados u s of (r, s') \<Rightarrow> Inr (RLista r, s'))"
| "paso (OpMutarCopia n xs) s = Inr (RNone, s\<lparr>listas := (listas s)(Copia n := xs)\<rparr>)"
| "paso (OpPrestar a l u) s =
     (case prestar a u (libros s l) of
        (r, b') \<Rightarrow> Inr (RBool r, s\<lparr>libros := (libros s)(l := b')\<rparr>))"
| "paso (OpDevolver a l) s =
     (case devolver a (libros s l) of
        Inl e \<Rightarrow> Inl e
      | Inr ((d, quien), b') \<Rightarrow> Inr (RDevolucion d quien, s\<lparr>libros := (libros s)(l := b')\<rparr>))"
| "paso (OpCambiarUbicacion l x) s = en_libro l (cambiar_ubicacion x (libros s l)) s"
| "paso (OpActualizarEstadoFisico l x) s = en_libro l (actualizar_estado_fisico x (libros s l)) s"
| "paso (OpRegistrarDescarga l) s = en_libro l (registrar_descarga (libros s l)) s"
| "paso (OpAvanzarSemestre u) s = en_usuario u (avanzar_semestre (usuarios s u)) s"
| "paso (OpCambiarCarrera u x) s = en_usuario u (cambiar_carrera x (usuarios s u)) s"
| "paso (OpCambiarDepartamento u x) s = en_usuario u (cambiar_departamento x (usuarios s u)) s"

text \<open>A sequence of calls stops at the first exception.\<close>

fun ejecutar :: "operacion list \<Rightarrow> mundo \<Rightarrow> error + (resultado list \<times> mundo)" where
  "ejecutar [] s = Inr ([], s)"
| "ejecutar (opn # ops) s =
     (case paso opn s of
        Inl e \<Rightarrow> Inl e
      | Inr (r, s') \<Rightarrow>
          (case ejecutar ops s' of Inl e \<Rightarrow> Inl e | Inr (rs, s'') \<Rightarrow> Inr (r # rs, s'')))"

section \<open>Library example: invariants\<close>

text \<open>
  The loan timestamp and the borrower reference are both set or both absent, and they
  are absent exactly when the book is available.
\<close>

definition libro_inv :: "libro \<Rightarrow> bool" where
  "libro_inv b =
     (((fecha_prestamo b = None) = (usuario_actual b = None))
      \<and> (disponible b = (fecha_prestamo b = None)))"

text \<open>The held list is within the loan limit and the fine balance is not negative.\<close>

definition usuario_inv :: "nat \<Rightarrow> mundo \<Rightarrow> bool" where
  "usuario_inv u s =
     (int (length (listas s (Interna u))) \<le> limite_prestamos (usuarios s u)
      \<and> 0 \<le> multa_acumulada (usuarios s u))"


text \<open>
  What a client can observe of a world without holding a reference to a copied list:
  the books, the users, the users' own lists and the allocation counter.
\<close>

definition interno :: "mundo \<Rightarrow> (nat \<Rightarrow> libro) \<times> (nat \<Rightarrow> usuario) \<times> (nat \<Rightarrow> nat list) \<times> nat" where
  "interno s = (libros s, usuarios s, (\<lambda>u. listas s (Interna u)), siguiente s)"

text \<open>Calls of \<open>devolver_libro\<close> and of \<open>pagar_multa\<close> on the user \<open>u\<close>.\<close>

definition es_devolucion :: "nat \<Rightarrow> operacion \<Rightarrow> bool" where
  "es_devolucion u opn = (case opn of OpDevolverLibro _ _ u' _ \<Rightarrow> u' = u | _ \<Rightarrow> False)"

definition es_pago :: "nat \<Rightarrow> operacion \<Rightarrow> bool" where
  "es_pago u opn = (case opn of OpPagarMulta u' _ \<Rightarrow> u' = u | _ \<Rightarrow> False)"

text \<open>The outcome of a call or of a sequence of calls, with the final world observed.\<close>

abbreviation observar ::
  "error + ('a \<times> mundo) \<Rightarrow>
   error + ('a \<times> ((nat \<Rightarrow> libro) \<times> (nat \<Rightarrow> usuario) \<times> (nat \<Rightarrow> nat list) \<times> nat))" where
  "observar \<equiv> map_sum id (map_prod id interno)"

section \<open>Shop example: products\<close>

datatype CategoriaProducto = ELECTRONICA | ROPA | HOGAR | LIBROS | DEPORTES

text \<open>
  What the two subclasses add to \<open>Producto\<close>; \<open>Producto\<close> itself can be instantiated
  too.
\<close>

datatype clase_producto =
    ProductoBase
  | ProductoElectronico (marca: string) (garantia_meses: int)
  | ProductoRopa (talla: string) (color: string) (material: string)

record producto =
  prod_id :: string
  prod_nombre :: string
  precio_original :: rat
  precio_actual :: rat
  categoria :: CategoriaProducto
  stock :: int
  descripcion :: string
  ventas_totales :: int
  clase_p :: clase_producto

text \<open>The decimal digits of a number, and the format \<open>04d\<close> of a number that is not negative.\<close>

fun digitos :: "nat \<Rightarrow> string" where
  "digitos n =
     (if n < 10 then [char_of (48 + n)] else digitos (n div 10) @ [char_of (48 + n mod 10)])"

declare digitos.simps [simp del]

definition formato_04d :: "nat \<Rightarrow> string" where
  "formato_04d n = replicate (4 - length (digitos n)) (CHR ''0'') @ digitos n"

text \<open>
  The class attribute \<open>_contador_productos\<close> is shared state: the constructor takes its
  value and returns the new one.
\<close>

definition generar_id :: "nat \<Rightarrow> string" where
  "generar_id contador = ''PROD-'' @ formato_04d (contador + 1)"

definition Producto_init ::
  "string \<Rightarrow> rat \<Rightarrow> CategoriaProducto \<Rightarrow> int \<Rightarrow> string \<Rightarrow> clase_producto \<Rightarrow> nat \<Rightarrow> producto \<times> nat" where
  "Producto_init n precio cat st descr c contador =
     (\<lparr>prod_id = generar_id contador, prod_nombre = n, precio_original = precio,
       precio_actual = precio, categoria = cat, stock = st, descripcion = descr,
       ventas_totales = 0, clase_p = c\<rparr>,
      contador + 1)"

definition ProductoElectronico_init ::
  "string \<Rightarrow> rat \<Rightarrow> int \<Rightarrow> string \<Rightarrow> int \<Rightarrow> string \<Rightarrow> nat \<Rightarrow> producto \<times> nat" where
  "ProductoElectronico_init n precio st m g descr contador =
     Producto_init n precio ELECTRONICA st descr (ProductoElectronico m g) contador"

definition ProductoRopa_init ::
  "string \<Rightarrow> rat \<Rightarrow> int \<Rightarrow> string \<Rightarrow> string \<Rightarrow> string \<Rightarrow> string \<Rightarrow> nat \<Rightarrow> producto \<times> nat" where
  "ProductoRopa_init n precio st t c m descr contador =
     Producto_init n precio ROPA st descr (ProductoRopa t c m) contador"

definition validar_precio :: "rat \<Rightarrow> bool" where
  "validar_precio precio = (precio > 0)"

definition aplicar_descuento :: "rat \<Rightarrow> producto \<Rightarrow> rat \<times> producto" where
  "aplicar_descuento porcentaje pr =
     (if 0 \<le> porcentaje \<and> porcentaje \<le> 100 then
        (let descuento = precio_original pr * (porcentaje / 100);
             pr' = pr\<lparr>precio_actual := precio_original pr - descuento\<rparr>
         in (precio_actual pr', pr'))
      else (precio_actual pr, pr))"

definition obtener_precio_original :: "producto \<Rightarrow> rat" where
  "obtener_precio_original pr = precio_original pr"

definition restaurar_precio_original :: "producto \<Rightarrow> producto" where
  "restaurar_precio_original pr = pr\<lparr>precio_actual := precio_original pr\<rparr>"

definition reducir_stock :: "int \<Rightarrow> producto \<Rightarrow> bool \<times> producto" where
  "reducir_stock cantidad pr =
     (if stock pr \<ge> cantidad
      then (True, pr\<lparr>stock := stock pr - cantidad, ventas_totales := ventas_totales pr + cantidad\<rparr>)
      else (False, pr))"

definition reponer_stock :: "int \<Rightarrow> producto \<Rightarrow> producto" where
  "reponer_stock cantidad pr = pr\<lparr>stock := stock pr + cantidad\<rparr>"

section \<open>Example objects\<close>

definition un_dia :: int where
  "un_dia = 86400000000"

definition libro_fisico_ej :: libro where
  "libro_fisico_ej =
     LibroFisico_init ''Cien anios de soledad'' ''Gabriel Garcia Marquez'' ''978-0-06-088328-7''
       1967 ''Estante A-12'' ''Bueno'' 417"

definition libro_digital_ej :: libro where
  "libro_digital_ej =
     LibroDigital_init ''Python Crash Course'' ''Eric Matthes'' ''978-1-59327-603-4''
       2015 ''pdf'' (25 / 2) ''https://biblioteca.example/python.pdf''"

text \<open>
  A world with a student (identity 1) and a professor (identity 2), both just
  registered; the book with identity 5 is digital, every other book is physical, and
  all books are on the shelf.
\<close>

definition mundo_ej :: mundo where
  "mundo_ej =
     Profesor_init 0 2 ''Carlos Ruiz'' ''P-001'' ''carlos@uni.example'' ''Informatica'' ''Doctor''
       (Estudiante_init 0 1 ''Ana Perez'' ''E-001'' ''ana@uni.example'' ''Ingenieria'' 3
          \<lparr>libros = (\<lambda>l. if l = 5 then libro_digital_ej else libro_fisico_ej),
           usuarios = (\<lambda>_. \<lparr>nombre = [], identificacion = [], email = [], fecha_registro = 0,
                              historial_prestamos = [], multa_acumulada = 0,
                              clase_u = Estudiante [] 1\<rparr>),
           listas = (\<lambda>_. []),
           siguiente = 0\<rparr>)"

definition producto_ej :: producto where
  "producto_ej = fst (ProductoElectronico_init ''Smartphone'' 1200 10 ''Samsung'' 24 [] 0)"

text \<open>The same world, where the student owes a fine of 3.\<close>

definition mundo_multa :: mundo where
  "mundo_multa =
     mundo_ej\<lparr>usuarios := (usuarios mundo_ej)(1 := (usuarios mundo_ej 1)\<lparr>multa_acumulada := 3\<rparr>)\<rparr>"

text \<open>
  The student has borrowed the physical book 3 at time 0; the professor has borrowed the
  digital book 5 at time 0; the student has borrowed the books 3, 4 and 5.
\<close>

definition mundo_prestado :: mundo where
  "mundo_prestado = snd (prestar_libro 0 1 1 3 mundo_ej)"


definition mundo_tres :: mundo where
  "mundo_tres =
     snd (prestar_libro 2 3 1 5 (snd (prestar_libro 1 2 1 4 (snd (prestar_libro 0 1 1 3 mundo_ej)))))"

section \<open>Properties of books\<close>

lemmas ej_defs = libro_fisico_ej_def libro_digital_ej_def LibroFisico_init_def
  LibroDigital_init_def Libro_init_def mundo_ej_def Profesor_init_def Estudiante_init_def
  Usuario_init_def un_dia_def

lemmas op_defs = prestar_libro_def prestar_def puede_prestar_def limite_prestamos_def
  obtener_tipo_def devolver_libro_def devolver_def calcular_dias_prestamo_def
  calcular_multa_por_dia_def actualizar_historial_def pagar_multa_def timedelta_days_def
  libro_inv_def Let_def

text \<open>
  C1.  Returning a book that is on loan since \<open>f\<close> yields the number of whole days
  since \<open>f\<close> minus the allowed duration of the book's class (14 for a physical book,
  7 for a digital one), floored at zero, together with the user that held the book,
  and leaves the book available with no loan timestamp and no holder.  Returning a
  book that is not on loan yields zero days and no user, changes nothing and is not an
  error.
\<close>

theorem devolver_dias_retraso:
  "(\<not> disponible b \<and> fecha_prestamo b = Some f \<longrightarrow>
      devolver ahora b =
        Inr ((max 0 (timedelta_days ahora f -
                     (case clase b of LibroFisico _ _ _ \<Rightarrow> 14 | LibroDigital _ _ _ _ \<Rightarrow> 7)),
              usuario_actual b),
             b\<lparr>disponible := True, fecha_prestamo := None, usuario_actual := None\<rparr>))
   \<and> (disponible b \<longrightarrow> devolver ahora b = Inr ((0, None), b))"
  by (simp add: devolver_def calcular_dias_prestamo_def Let_def)

theorem devolver_dias_retraso_witness:
  "devolver (20 * un_dia) (snd (prestar 0 1 libro_fisico_ej)) = Inr ((6, Some 1), libro_fisico_ej)
   \<and> devolver (7 * un_dia + 5) (snd (prestar 5 2 libro_digital_ej)) = Inr ((0, Some 2), libro_digital_ej)
   \<and> devolver (9 * un_dia) (snd (prestar 0 2 libro_digital_ej)) = Inr ((2, Some 2), libro_digital_ej)
   \<and> devolver (20 * un_dia) libro_fisico_ej = Inr ((0, None), libro_fisico_ej)"
  using devolver_dias_retraso [of "snd (prestar 0 1 libro_fisico_ej)" 0 "20 * un_dia"]
        devolver_dias_retraso [of "snd (prestar 5 2 libro_digital_ej)" 5 "7 * un_dia + 5"]
        devolver_dias_retraso [of "snd (prestar 0 2 libro_digital_ej)" 0 "9 * un_dia"]
        devolver_dias_retraso [of libro_fisico_ej 0 "20 * un_dia"]
  by (simp add: prestar_def ej_defs timedelta_days_def)

text \<open>
  C4.  A loan succeeds exactly when the book is available.  On success the book becomes
  unavailable, with the clock reading as loan timestamp and the given user as holder.
  On a book that is on loan the call returns false and changes nothing; so a second
  loan right after any loan returns false and keeps what the first one left.
\<close>

theorem prestar_exito_sii_disponible:
  "fst (prestar ahora u b) = disponible b
   \<and> (disponible b \<longrightarrow>
        prestar ahora u b =
          (True, b\<lparr>disponible := False, fecha_prestamo := Some ahora, usuario_actual := Some u\<rparr>))
   \<and> (\<not> disponible b \<longrightarrow> prestar ahora u b = (False, b))
   \<and> prestar ahora' u' (snd (prestar ahora u b)) = (False, snd (prestar ahora u b))"
  by (simp add: prestar_def)

theorem prestar_exito_sii_disponible_witness:
  "prestar 10 1 libro_fisico_ej =
     (True, libro_fisico_ej\<lparr>disponible := False, fecha_prestamo := Some 10, usuario_actual := Some 1\<rparr>)
   \<and> prestar 20 2 (snd (prestar 10 1 libro_fisico_ej)) =
     (False, libro_fisico_ej\<lparr>disponible := False, fecha_prestamo := Some 10, usuario_actual := Some 1\<rparr>)"
  using prestar_exito_sii_disponible [of 10 1 libro_fisico_ej 20 2]
  by (simp add: ej_defs prestar_def)

section \<open>Properties of users\<close>

text \<open>
  C5.  A user may borrow if and only if the number of held books is strictly below the
  limit of the user's class (3 for a student, 10 for a professor) and the fine balance
  is exactly zero; any other balance forbids it.
\<close>

theorem puede_prestar_sii:
  "puede_prestar u s =
     (int (length (listas s (Interna u)))
        < (case clase_u (usuarios s u) of Estudiante _ _ \<Rightarrow> 3 | Profesor _ _ \<Rightarrow> 10)
      \<and> multa_acumulada (usuarios s u) = 0)
   \<and> (multa_acumulada (usuarios s u) \<noteq> 0 \<longrightarrow> \<not> puede_prestar u s)"
  by (simp add: puede_prestar_def limite_prestamos_def Let_def)

theorem puede_prestar_sii_witness:
  "puede_prestar 1 mundo_ej
   \<and> \<not> puede_prestar 1
        (mundo_ej\<lparr>usuarios := (usuarios mundo_ej)(1 := (usuarios mundo_ej 1)\<lparr>multa_acumulada := 1 / 100\<rparr>)\<rparr>)
   \<and> \<not> puede_prestar 1 (mundo_ej\<lparr>listas := (listas mundo_ej)(Interna 1 := [3, 4, 6])\<rparr>)
   \<and> puede_prestar 2 (mundo_ej\<lparr>listas := (listas mundo_ej)(Interna 2 := [3, 4, 6])\<rparr>)"
  using puede_prestar_sii [of 1 mundo_ej]
    puede_prestar_sii [of 1 "mundo_ej\<lparr>usuarios := (usuarios mundo_ej)(1 := (usuarios mundo_ej 1)\<lparr>multa_acumulada := 1 / 100\<rparr>)\<rparr>"]
    puede_prestar_sii [of 1 "mundo_ej\<lparr>listas := (listas mundo_ej)(Interna 1 := [3, 4, 6])\<rparr>"]
    puede_prestar_sii [of 2 "mundo_ej\<lparr>listas := (listas mundo_ej)(Interna 2 := [3, 4, 6])\<rparr>"]
  by (simp add: ej_defs puede_prestar_def limite_prestamos_def)







lemma devolver_inv:
  "libro_inv b \<Longrightarrow>
   devolver a b =
     Inr ((case fecha_prestamo b of None \<Rightarrow> 0
           | Some f \<Rightarrow>
               max 0 (timedelta_days a f -
                      (case clase b of LibroFisico _ _ _ \<Rightarrow> 14 | LibroDigital _ _ _ _ \<Rightarrow> 7)),
           usuario_actual b),
          b\<lparr>disponible := True, fecha_prestamo := None, usuario_actual := None\<rparr>)"
  by (cases "fecha_prestamo b")
     (auto simp add: libro_inv_def devolver_def Let_def calcular_dias_prestamo_def)






text \<open>
  C3.  \<open>prestar_libro\<close> returns true exactly when \<open>puede_prestar\<close> holds and the book
  is available.  When the user may not borrow, the loan of the book is not attempted:
  the call returns false and the whole world, the book included, is as before; any
  failed call leaves the world as before.  In particular a student who holds three
  books is refused.  On success the book is appended to the held list, an open entry
  is appended to the history, and the book is on loan to the user.
\<close>

theorem prestar_libro_elegibilidad:
  "fst (prestar_libro a1 a2 u l s) = (puede_prestar u s \<and> disponible (libros s l))
   \<and> (\<not> fst (prestar_libro a1 a2 u l s) \<longrightarrow> snd (prestar_libro a1 a2 u l s) = s)
   \<and> (\<not> puede_prestar u s \<longrightarrow> prestar_libro a1 a2 u l s = (False, s))
   \<and> ((\<exists>c n. clase_u (usuarios s u) = Estudiante c n) \<and> length (listas s (Interna u)) = 3 \<longrightarrow>
        prestar_libro a1 a2 u l s = (False, s))
   \<and> (puede_prestar u s \<and> disponible (libros s l) \<longrightarrow>
        listas (snd (prestar_libro a1 a2 u l s)) (Interna u) = listas s (Interna u) @ [l]
        \<and> historial_prestamos (usuarios (snd (prestar_libro a1 a2 u l s)) u) =
            historial_prestamos (usuarios s u) @
              [\<lparr>libro_titulo = titulo (libros s l), libro_isbn = isbn (libros s l),
                fecha_prestamo_reg = a2, tipo_libro = obtener_tipo (libros s l),
                devuelto = False, fecha_devolucion = None, dias_retraso = None\<rparr>]
        \<and> libros (snd (prestar_libro a1 a2 u l s)) l =
            (libros s l)\<lparr>disponible := False, fecha_prestamo := Some a1, usuario_actual := Some u\<rparr>)"
  by (auto simp add: prestar_libro_def prestar_def puede_prestar_def limite_prestamos_def
        obtener_tipo_def Let_def)

theorem prestar_libro_elegibilidad_witness:
  "fst (prestar_libro 0 1 1 3 mundo_ej)
   \<and> listas mundo_tres (Interna 1) = [3, 4, 5]
   \<and> prestar_libro 3 4 1 6 mundo_tres = (False, mundo_tres)
   \<and> disponible (libros (snd (prestar_libro 3 4 1 6 mundo_tres)) 6)
   \<and> prestar_libro 3 4 2 3 mundo_tres = (False, mundo_tres)
   \<and> prestar_libro 3 4 1 6 mundo_multa = (False, mundo_multa)"
  using prestar_libro_elegibilidad [of 0 1 1 3 mundo_ej]
        prestar_libro_elegibilidad [of 3 4 1 6 mundo_tres]
        prestar_libro_elegibilidad [of 3 4 2 3 mundo_tres]
        prestar_libro_elegibilidad [of 3 4 1 6 mundo_multa]
  by (simp add: mundo_tres_def mundo_multa_def ej_defs op_defs)

section \<open>Sequences of calls: the state of a book\<close>

lemma prestar_conserva_inv: "libro_inv b \<Longrightarrow> libro_inv (snd (prestar a u b))"
  by (simp add: prestar_def libro_inv_def)

lemma devolver_conserva_inv: "libro_inv b \<Longrightarrow> devolver a b = Inr (r, b') \<Longrightarrow> libro_inv b'"
  by (auto simp add: devolver_def libro_inv_def Let_def split: if_splits option.splits)

lemma mutadores_conservan_inv:
  "libro_inv b \<Longrightarrow> cambiar_ubicacion x b = Inr b' \<Longrightarrow> libro_inv b'"
  "libro_inv b \<Longrightarrow> actualizar_estado_fisico x b = Inr b' \<Longrightarrow> libro_inv b'"
  "libro_inv b \<Longrightarrow> registrar_descarga b = Inr b' \<Longrightarrow> libro_inv b'"
  by (auto simp add: cambiar_ubicacion_def actualizar_estado_fisico_def registrar_descarga_def
        libro_inv_def split: clase_libro.splits)

lemma prestar_libro_libros:
  "prestar_libro a1 a2 u l' s = (x, s') \<Longrightarrow>
   libros s' l =
     (if l' = l \<and> puede_prestar u s then snd (prestar a1 u (libros s l)) else libros s l)"
  by (auto simp add: prestar_libro_def Let_def split: prod.splits bool.splits if_splits)

lemma devolver_libro_libros:
  "devolver_libro a1 a2 u l' s = Inr (m, s') \<Longrightarrow>
   libros s' l = libros s l \<or> (\<exists>r. devolver a1 (libros s l) = Inr (r, libros s' l))"
  by (auto simp add: devolver_libro_def Let_def split: if_splits sum.splits prod.splits)

lemma paso_libro_inv:
  assumes "libro_inv (libros s l)" and "paso opn s = Inr (r, s')"
  shows "libro_inv (libros s' l)"
proof (cases opn)
  case (OpPrestarLibro a1 a2 u l')
  with assms show ?thesis
    by (auto simp add: prestar_conserva_inv split: prod.splits dest!: prestar_libro_libros [where l = l])
next
  case (OpDevolverLibro a1 a2 u l')
  with assms show ?thesis
    by (auto split: sum.splits prod.splits dest!: devolver_libro_libros dest: devolver_conserva_inv)
next
  case (OpPagarMulta u c)
  with assms show ?thesis by (auto simp add: pagar_multa_def Let_def split: if_splits)
next
  case (OpLibrosPrestados u)
  with assms show ?thesis by (auto simp add: libros_prestados_def)
next
  case (OpMutarCopia n xs)
  with assms show ?thesis by auto
next
  case (OpPrestar a l' u)
  with assms show ?thesis
    using prestar_conserva_inv [of "libros s l" a u]
    by (auto split: prod.splits)
next
  case (OpDevolver a l')
  with assms show ?thesis
    by (auto split: sum.splits prod.splits dest: devolver_conserva_inv)
next
  case (OpCambiarUbicacion l' x)
  with assms show ?thesis
    by (auto simp add: en_libro_def split: sum.splits dest: mutadores_conservan_inv)
next
  case (OpActualizarEstadoFisico l' x)
  with assms show ?thesis
    by (auto simp add: en_libro_def split: sum.splits dest: mutadores_conservan_inv)
next
  case (OpRegistrarDescarga l')
  with assms show ?thesis
    by (auto simp add: en_libro_def split: sum.splits dest: mutadores_conservan_inv)
next
  case (OpAvanzarSemestre u)
  with assms show ?thesis by (auto simp add: en_usuario_def split: sum.splits)
next
  case (OpCambiarCarrera u x)
  with assms show ?thesis by (auto simp add: en_usuario_def split: sum.splits)
next
  case (OpCambiarDepartamento u x)
  with assms show ?thesis by (auto simp add: en_usuario_def split: sum.splits)
qed

lemma ejecutar_libro_inv:
  "libro_inv (libros s l) \<Longrightarrow> ejecutar ops s = Inr (rs, s') \<Longrightarrow> libro_inv (libros s' l)"
proof (induction ops arbitrary: s rs)
  case Nil
  then show ?case by simp
next
  case (Cons opn ops)
  then show ?case
    by (auto split: sum.splits prod.splits dest: paso_libro_inv)
qed

section \<open>Sequences of calls: the state of a user\<close>

lemma limite_clase:
  "limite_prestamos (usr\<lparr>historial_prestamos := h\<rparr>) = limite_prestamos usr"
  "limite_prestamos (usr\<lparr>multa_acumulada := m\<rparr>) = limite_prestamos usr"
  by (simp_all add: limite_prestamos_def)

lemma devolver_dias_no_negativos: "devolver a b = Inr ((d, q), b') \<Longrightarrow> 0 \<le> d"
  by (auto simp add: devolver_def Let_def split: if_splits option.splits)

lemma devolver_dias_tarde:
  "devolver a b = Inr ((d, q), b') \<Longrightarrow> 0 < d \<Longrightarrow>
   \<not> disponible b \<and> (\<exists>f. fecha_prestamo b = Some f
        \<and> calcular_dias_prestamo b < timedelta_days a f
        \<and> d = timedelta_days a f - calcular_dias_prestamo b)"
  by (auto simp add: devolver_def Let_def split: if_splits option.splits)

lemma multa_por_dia_positiva: "0 < calcular_multa_por_dia usr"
  by (simp add: calcular_multa_por_dia_def split: clase_usuario.splits)

text \<open>What one call of \<open>prestar_libro\<close> does to the state of a user \<open>v\<close>.\<close>

lemma prestar_libro_usuario_aux:
  assumes "prestar_libro a1 a2 u l s = (x, s')"
  shows "multa_acumulada (usuarios s' v) = multa_acumulada (usuarios s v)"
    and "limite_prestamos (usuarios s' v) = limite_prestamos (usuarios s v)"
    and "listas s' (Interna v) = listas s (Interna v)
         \<or> (v = u \<and> puede_prestar u s \<and> listas s' (Interna v) = listas s (Interna v) @ [l])"
  using assms
  by (auto simp add: prestar_libro_def Let_def limite_clase split: prod.splits bool.splits if_splits)

lemma devolver_libro_usuario_aux:
  assumes "devolver_libro a1 a2 u l s = Inr (m, s')"
  shows "limite_prestamos (usuarios s' v) = limite_prestamos (usuarios s v)"
    and "length (listas s' (Interna v)) \<le> length (listas s (Interna v))"
    and "0 \<le> m"
    and "multa_acumulada (usuarios s' v) = multa_acumulada (usuarios s v) + (if v = u then m else 0)"
    and "0 < m \<longrightarrow> l \<in> set (listas s (Interna u)) \<and> \<not> disponible (libros s l)
           \<and> (\<exists>f. fecha_prestamo (libros s l) = Some f
                \<and> calcular_dias_prestamo (libros s l) < timedelta_days a1 f
                \<and> m = of_int (timedelta_days a1 f - calcular_dias_prestamo (libros s l))
                        * calcular_multa_por_dia (usuarios s u))"
proof -
  show "limite_prestamos (usuarios s' v) = limite_prestamos (usuarios s v)"
    using assms
    by (auto simp add: devolver_libro_def Let_def limite_clase
          split: if_splits sum.splits prod.splits)
  show "length (listas s' (Interna v)) \<le> length (listas s (Interna v))"
    using assms
    by (auto simp add: devolver_libro_def Let_def length_remove1
          split: if_splits sum.splits prod.splits)
  show "0 \<le> m"
    using assms multa_por_dia_positiva [of "usuarios s u"]
    by (auto simp add: devolver_libro_def Let_def
          split: if_splits sum.splits prod.splits)
  show "multa_acumulada (usuarios s' v) = multa_acumulada (usuarios s v) + (if v = u then m else 0)"
    using assms
    by (auto simp add: devolver_libro_def Let_def
          split: if_splits sum.splits prod.splits)
  show "0 < m \<longrightarrow> l \<in> set (listas s (Interna u)) \<and> \<not> disponible (libros s l)
           \<and> (\<exists>f. fecha_prestamo (libros s l) = Some f
                \<and> calcular_dias_prestamo (libros s l) < timedelta_days a1 f
                \<and> m = of_int (timedelta_days a1 f - calcular_dias_prestamo (libros s l))
                        * calcular_multa_por_dia (usuarios s u))"
    using assms
    by (auto simp add: devolver_libro_def Let_def
          split: if_splits sum.splits prod.splits dest!: devolver_dias_tarde)
qed


lemma pagar_multa_usuario_aux:
  assumes "pagar_multa c u s = (m, s')"
  shows "limite_prestamos (usuarios s' v) = limite_prestamos (usuarios s v)"
    and "listas s' = listas s"
    and "multa_acumulada (usuarios s' v) =
           (if v = u \<and> 0 < c then max 0 (multa_acumulada (usuarios s v) - c)
            else multa_acumulada (usuarios s v))"
  using assms
  by (auto simp add: pagar_multa_def Let_def limite_clase split: if_splits)

lemma prestar_libro_usuario:
  assumes "prestar_libro a1 a2 u l s = (x, s')"
  shows "multa_acumulada (usuarios s' v) = multa_acumulada (usuarios s v)
    \<and> limite_prestamos (usuarios s' v) = limite_prestamos (usuarios s v)
    \<and> (listas s' (Interna v) = listas s (Interna v)
         \<or> (v = u \<and> puede_prestar u s \<and> listas s' (Interna v) = listas s (Interna v) @ [l]))"
  using prestar_libro_usuario_aux [OF assms, where v = v] by simp

lemma devolver_libro_usuario:
  assumes "devolver_libro a1 a2 u l s = Inr (m, s')"
  shows "limite_prestamos (usuarios s' v) = limite_prestamos (usuarios s v)
    \<and> length (listas s' (Interna v)) \<le> length (listas s (Interna v))
    \<and> 0 \<le> m
    \<and> multa_acumulada (usuarios s' v) = multa_acumulada (usuarios s v) + (if v = u then m else 0)
    \<and> (0 < m \<longrightarrow> l \<in> set (listas s (Interna u)) \<and> \<not> disponible (libros s l)
           \<and> (\<exists>f. fecha_prestamo (libros s l) = Some f
                \<and> calcular_dias_prestamo (libros s l) < timedelta_days a1 f
                \<and> m = of_int (timedelta_days a1 f - calcular_dias_prestamo (libros s l))
                        * calcular_multa_por_dia (usuarios s u)))"
  using devolver_libro_usuario_aux(1,2,4) [OF assms, where v = v]
        devolver_libro_usuario_aux(3,5) [OF assms]
  by simp

lemma pagar_multa_usuario:
  assumes "pagar_multa c u s = (m, s')"
  shows "limite_prestamos (usuarios s' v) = limite_prestamos (usuarios s v)
    \<and> listas s' = listas s
    \<and> multa_acumulada (usuarios s' v) =
           (if v = u \<and> 0 < c then max 0 (multa_acumulada (usuarios s v) - c)
            else multa_acumulada (usuarios s v))"
  using pagar_multa_usuario_aux(1,3) [OF assms, where v = v] pagar_multa_usuario_aux(2) [OF assms]
  by simp

lemma mutadores_usuario:
  "avanzar_semestre usr = Inr usr' \<Longrightarrow>
     limite_prestamos usr' = limite_prestamos usr \<and> multa_acumulada usr' = multa_acumulada usr"
  "cambiar_carrera x usr = Inr usr' \<Longrightarrow>
     limite_prestamos usr' = limite_prestamos usr \<and> multa_acumulada usr' = multa_acumulada usr"
  "cambiar_departamento x usr = Inr usr' \<Longrightarrow>
     limite_prestamos usr' = limite_prestamos usr \<and> multa_acumulada usr' = multa_acumulada usr"
  by (auto simp add: avanzar_semestre_def cambiar_carrera_def cambiar_departamento_def
        limite_prestamos_def split: clase_usuario.splits)

lemma en_usuario_usuario:
  assumes "en_usuario u x s = Inr (r, s')"
    and "\<And>usr'. x = Inr usr' \<Longrightarrow>
           limite_prestamos usr' = limite_prestamos (usuarios s u)
           \<and> multa_acumulada usr' = multa_acumulada (usuarios s u)"
  shows "limite_prestamos (usuarios s' v) = limite_prestamos (usuarios s v)
         \<and> multa_acumulada (usuarios s' v) = multa_acumulada (usuarios s v)
         \<and> listas s' = listas s"
  using assms by (auto simp add: en_usuario_def split: sum.splits)

lemma en_libro_usuario:
  "en_libro l x s = Inr (r, s') \<Longrightarrow> usuarios s' = usuarios s \<and> listas s' = listas s"
  by (auto simp add: en_libro_def split: sum.splits)

text \<open>
  The effect of one call on a user \<open>v\<close>: the limit never changes, the held list grows
  by one only in a successful \<open>prestar_libro\<close> of \<open>v\<close>, and the balance changes only as
  the last two conjuncts say.
\<close>

lemma paso_usuario:
  assumes "paso opn s = Inr (r, s')"
  shows "limite_prestamos (usuarios s' v) = limite_prestamos (usuarios s v)"
    and "length (listas s' (Interna v)) \<le> length (listas s (Interna v))
         \<or> (puede_prestar v s
             \<and> length (listas s' (Interna v)) = Suc (length (listas s (Interna v))))"
    and "0 \<le> multa_acumulada (usuarios s v)
         \<and> multa_acumulada (usuarios s v) < multa_acumulada (usuarios s' v) \<longrightarrow>
           (\<exists>a1 a2 l f. opn = OpDevolverLibro a1 a2 v l
              \<and> r = RMulta (multa_acumulada (usuarios s' v) - multa_acumulada (usuarios s v))
              \<and> l \<in> set (listas s (Interna v)) \<and> \<not> disponible (libros s l)
              \<and> fecha_prestamo (libros s l) = Some f
              \<and> calcular_dias_prestamo (libros s l) < timedelta_days a1 f)"
    and "multa_acumulada (usuarios s' v) < multa_acumulada (usuarios s v) \<longrightarrow>
           (\<exists>c. opn = OpPagarMulta v c \<and> 0 < c)"
    and "0 \<le> multa_acumulada (usuarios s v) \<longrightarrow> 0 \<le> multa_acumulada (usuarios s' v)"
proof -
  have "limite_prestamos (usuarios s' v) = limite_prestamos (usuarios s v)
    \<and> (length (listas s' (Interna v)) \<le> length (listas s (Interna v))
         \<or> (puede_prestar v s
             \<and> length (listas s' (Interna v)) = Suc (length (listas s (Interna v)))))
    \<and> (0 \<le> multa_acumulada (usuarios s v)
         \<and> multa_acumulada (usuarios s v) < multa_acumulada (usuarios s' v) \<longrightarrow>
           (\<exists>a1 a2 l f. opn = OpDevolverLibro a1 a2 v l
              \<and> r = RMulta (multa_acumulada (usuarios s' v) - multa_acumulada (usuarios s v))
              \<and> l \<in> set (listas s (Interna v)) \<and> \<not> disponible (libros s l)
              \<and> fecha_prestamo (libros s l) = Some f
              \<and> calcular_dias_prestamo (libros s l) < timedelta_days a1 f))
    \<and> (multa_acumulada (usuarios s' v) < multa_acumulada (usuarios s v) \<longrightarrow>
           (\<exists>c. opn = OpPagarMulta v c \<and> 0 < c))
    \<and> (0 \<le> multa_acumulada (usuarios s v) \<longrightarrow> 0 \<le> multa_acumulada (usuarios s' v))"
  proof (cases opn)
    case (OpPrestarLibro a1 a2 u l)
    with assms obtain x where e: "prestar_libro a1 a2 u l s = (x, s')"
      by (auto split: prod.splits)
    from prestar_libro_usuario [OF e, of v] show ?thesis by auto
  next
    case (OpDevolverLibro a1 a2 u l)
    with assms obtain m where e: "devolver_libro a1 a2 u l s = Inr (m, s')" and r: "r = RMulta m"
      by (auto split: sum.splits prod.splits)
    from devolver_libro_usuario [OF e, of v] r OpDevolverLibro show ?thesis
      by (auto split: if_splits)
  next
    case (OpPagarMulta u c)
    with assms obtain m where e: "pagar_multa c u s = (m, s')"
      by (auto split: prod.splits)
    from pagar_multa_usuario [OF e, of v] OpPagarMulta show ?thesis
      by (auto split: if_splits)
  next
    case (OpLibrosPrestados u)
    with assms show ?thesis by (auto simp add: libros_prestados_def)
  next
    case (OpMutarCopia n xs)
    with assms show ?thesis by auto
  next
    case (OpPrestar a l u)
    with assms show ?thesis by (auto split: prod.splits)
  next
    case (OpDevolver a l)
    with assms show ?thesis by (auto split: sum.splits prod.splits)
  next
    case (OpCambiarUbicacion l x)
    with assms show ?thesis by (auto dest!: en_libro_usuario)
  next
    case (OpActualizarEstadoFisico l x)
    with assms show ?thesis by (auto dest!: en_libro_usuario)
  next
    case (OpRegistrarDescarga l)
    with assms show ?thesis by (auto dest!: en_libro_usuario)
  next
    case (OpAvanzarSemestre u)
    with assms have e: "en_usuario u (avanzar_semestre (usuarios s u)) s = Inr (r, s')" by simp
    from en_usuario_usuario [OF e mutadores_usuario(1), where v = v] show ?thesis by simp
  next
    case (OpCambiarCarrera u x)
    with assms have e: "en_usuario u (cambiar_carrera x (usuarios s u)) s = Inr (r, s')" by simp
    from en_usuario_usuario [OF e mutadores_usuario(2), where v = v] show ?thesis by simp
  next
    case (OpCambiarDepartamento u x)
    with assms have e: "en_usuario u (cambiar_departamento x (usuarios s u)) s = Inr (r, s')" by simp
    from en_usuario_usuario [OF e mutadores_usuario(3), where v = v] show ?thesis by simp
  qed
  then show "limite_prestamos (usuarios s' v) = limite_prestamos (usuarios s v)"
    and "length (listas s' (Interna v)) \<le> length (listas s (Interna v))
         \<or> (puede_prestar v s
             \<and> length (listas s' (Interna v)) = Suc (length (listas s (Interna v))))"
    and "0 \<le> multa_acumulada (usuarios s v)
         \<and> multa_acumulada (usuarios s v) < multa_acumulada (usuarios s' v) \<longrightarrow>
           (\<exists>a1 a2 l f. opn = OpDevolverLibro a1 a2 v l
              \<and> r = RMulta (multa_acumulada (usuarios s' v) - multa_acumulada (usuarios s v))
              \<and> l \<in> set (listas s (Interna v)) \<and> \<not> disponible (libros s l)
              \<and> fecha_prestamo (libros s l) = Some f
              \<and> calcular_dias_prestamo (libros s l) < timedelta_days a1 f)"
    and "multa_acumulada (usuarios s' v) < multa_acumulada (usuarios s v) \<longrightarrow>
           (\<exists>c. opn = OpPagarMulta v c \<and> 0 < c)"
    and "0 \<le> multa_acumulada (usuarios s v) \<longrightarrow> 0 \<le> multa_acumulada (usuarios s' v)"
    by blast+
qed

lemma paso_usuario_inv:
  assumes "usuario_inv v s" and "paso opn s = Inr (r, s')"
  shows "usuario_inv v s'"
  using assms(1) paso_usuario(1,2,5) [OF assms(2), of v]
  by (auto simp add: usuario_inv_def puede_prestar_def Let_def)

lemma ejecutar_usuario_inv:
  "usuario_inv v s \<Longrightarrow> ejecutar ops s = Inr (rs, s') \<Longrightarrow> usuario_inv v s'"
proof (induction ops arbitrary: s rs)
  case Nil
  then show ?case by simp
next
  case (Cons opn ops)
  then show ?case
    by (auto split: sum.splits prod.splits dest: paso_usuario_inv)
qed

lemma ejecutar_sin_devolucion:
  "ejecutar ops s = Inr (rs, s') \<Longrightarrow> \<forall>opn\<in>set ops. \<not> es_devolucion v opn \<Longrightarrow>
   0 \<le> multa_acumulada (usuarios s v) \<Longrightarrow>
   multa_acumulada (usuarios s' v) \<le> multa_acumulada (usuarios s v)"
proof (induction ops arbitrary: s rs)
  case Nil
  then show ?case by simp
next
  case (Cons opn ops)
  from Cons.prems(1) obtain r s1 rs1 where p: "paso opn s = Inr (r, s1)"
    and e: "ejecutar ops s1 = Inr (rs1, s')"
    by (auto split: sum.splits prod.splits)
  from Cons.prems(2) have nd: "\<not> es_devolucion v opn" and rest: "\<forall>opn\<in>set ops. \<not> es_devolucion v opn"
    by simp_all
  from paso_usuario(3) [OF p, of v] nd Cons.prems(3)
  have le: "multa_acumulada (usuarios s1 v) \<le> multa_acumulada (usuarios s v)"
    by (auto simp add: es_devolucion_def)
  from paso_usuario(5) [OF p, of v] Cons.prems(3)
  have "0 \<le> multa_acumulada (usuarios s1 v)" by simp
  from Cons.IH [OF e rest this] le show ?case by simp
qed

lemma ejecutar_sin_pago:
  "ejecutar ops s = Inr (rs, s') \<Longrightarrow> \<forall>opn\<in>set ops. \<not> es_pago v opn \<Longrightarrow>
   multa_acumulada (usuarios s v) \<le> multa_acumulada (usuarios s' v)"
proof (induction ops arbitrary: s rs)
  case Nil
  then show ?case by simp
next
  case (Cons opn ops)
  from Cons.prems(1) obtain r s1 rs1 where p: "paso opn s = Inr (r, s1)"
    and e: "ejecutar ops s1 = Inr (rs1, s')"
    by (auto split: sum.splits prod.splits)
  from Cons.prems(2) have nd: "\<not> es_pago v opn" and rest: "\<forall>opn\<in>set ops. \<not> es_pago v opn"
    by simp_all
  from paso_usuario(4) [OF p, of v] nd
  have "multa_acumulada (usuarios s v) \<le> multa_acumulada (usuarios s1 v)"
    by (auto simp add: es_pago_def)
  with Cons.IH [OF e rest] show ?case by simp
qed

section \<open>Sequences of calls: what depends on copied lists\<close>

lemma interno_eq:
  "interno s = interno t \<longleftrightarrow>
     libros s = libros t \<and> usuarios s = usuarios t
     \<and> (\<forall>u. listas s (Interna u) = listas t (Interna u)) \<and> siguiente s = siguiente t"
  by (auto simp add: interno_def fun_eq_iff)

lemma puede_prestar_interno: "interno s = interno t \<Longrightarrow> puede_prestar u s = puede_prestar u t"
  by (simp add: interno_eq puede_prestar_def)

lemma prestar_libro_interno:
  assumes "interno s = interno t"
  shows "fst (prestar_libro a1 a2 u l s) = fst (prestar_libro a1 a2 u l t)
         \<and> interno (snd (prestar_libro a1 a2 u l s)) = interno (snd (prestar_libro a1 a2 u l t))"
  using assms puede_prestar_interno [OF assms, of u]
  by (simp add: interno_eq prestar_libro_def Let_def split: prod.splits bool.splits)

lemma devolver_libro_interno:
  assumes "interno s = interno t"
  shows "observar (devolver_libro a1 a2 u l s) = observar (devolver_libro a1 a2 u l t)"
  using assms
  by (simp add: interno_eq devolver_libro_def Let_def split: sum.splits prod.splits)

lemma pagar_multa_interno:
  assumes "interno s = interno t"
  shows "fst (pagar_multa c u s) = fst (pagar_multa c u t)
         \<and> interno (snd (pagar_multa c u s)) = interno (snd (pagar_multa c u t))"
  using assms
  by (simp add: interno_eq pagar_multa_def Let_def)

lemma paso_interno:
  assumes "interno s = interno t"
  shows "observar (paso opn s) = observar (paso opn t)"
proof (cases opn)
  case (OpPrestarLibro a1 a2 u l)
  with prestar_libro_interno [OF assms, of a1 a2 u l] show ?thesis
    by (cases "prestar_libro a1 a2 u l s"; cases "prestar_libro a1 a2 u l t") simp
next
  case (OpDevolverLibro a1 a2 u l)
  with devolver_libro_interno [OF assms, of a1 a2 u l] show ?thesis
    by (auto split: sum.splits prod.splits)
next
  case (OpPagarMulta u c)
  with pagar_multa_interno [OF assms, of c u] show ?thesis
    by (cases "pagar_multa c u s"; cases "pagar_multa c u t") simp
next
  case (OpLibrosPrestados u)
  with assms show ?thesis by (simp add: interno_eq libros_prestados_def)
next
  case (OpMutarCopia n xs)
  with assms show ?thesis by (simp add: interno_eq)
next
  case (OpPrestar a l u)
  with assms show ?thesis by (simp add: interno_eq split: prod.splits)
next
  case (OpDevolver a l)
  with assms show ?thesis by (simp add: interno_eq split: sum.splits prod.splits)
next
  case (OpCambiarUbicacion l x)
  with assms show ?thesis by (simp add: interno_eq en_libro_def split: sum.splits)
next
  case (OpActualizarEstadoFisico l x)
  with assms show ?thesis by (simp add: interno_eq en_libro_def split: sum.splits)
next
  case (OpRegistrarDescarga l)
  with assms show ?thesis by (simp add: interno_eq en_libro_def split: sum.splits)
next
  case (OpAvanzarSemestre u)
  with assms show ?thesis by (simp add: interno_eq en_usuario_def split: sum.splits)
next
  case (OpCambiarCarrera u x)
  with assms show ?thesis by (simp add: interno_eq en_usuario_def split: sum.splits)
next
  case (OpCambiarDepartamento u x)
  with assms show ?thesis by (simp add: interno_eq en_usuario_def split: sum.splits)
qed

lemma ejecutar_interno:
  "interno s = interno t \<Longrightarrow> observar (ejecutar ops s) = observar (ejecutar ops t)"
proof (induction ops arbitrary: s t)
  case Nil
  then show ?case by simp
next
  case (Cons opn ops)
  from paso_interno [OF Cons.prems, of opn]
  consider (err) e where "paso opn s = Inl e" "paso opn t = Inl e"
    | (ok) r s1 t1 where "paso opn s = Inr (r, s1)" "paso opn t = Inr (r, t1)" "interno s1 = interno t1"
    by (cases "paso opn s"; cases "paso opn t") auto
  then show ?case
  proof cases
    case err
    then show ?thesis by simp
  next
    case ok
    from Cons.IH [OF ok(3)] ok(1,2) show ?thesis
      by (cases "ejecutar ops s1"; cases "ejecutar ops t1") auto
  qed
qed

section \<open>Invariants of books and users, and copied lists\<close>

text \<open>
  C7.  A book made by either constructor is available, has no loan timestamp and no
  holder, and satisfies the invariant: timestamp and holder are both set or both
  absent, and they are absent exactly when the book is available.  \<open>prestar\<close> and
  \<open>devolver\<close> preserve the invariant, and on a book that satisfies it \<open>devolver\<close>
  raises no exception.  Every call of the interface that returns, and every sequence
  of calls that returns, preserves the invariant of every book.
\<close>

theorem libro_inv_preservado:
  "libro_inv (LibroFisico_init t a i y ub ef np)
   \<and> disponible (LibroFisico_init t a i y ub ef np)
   \<and> fecha_prestamo (LibroFisico_init t a i y ub ef np) = None
   \<and> usuario_actual (LibroFisico_init t a i y ub ef np) = None
   \<and> libro_inv (LibroDigital_init t a i y fm tm url)
   \<and> disponible (LibroDigital_init t a i y fm tm url)
   \<and> fecha_prestamo (LibroDigital_init t a i y fm tm url) = None
   \<and> usuario_actual (LibroDigital_init t a i y fm tm url) = None
   \<and> (libro_inv b \<longrightarrow>
        libro_inv (snd (prestar ahora u b))
        \<and> (\<exists>r b'. devolver ahora b = Inr (r, b') \<and> libro_inv b'))
   \<and> (\<forall>r s'. libro_inv (libros s l) \<and> paso opn s = Inr (r, s') \<longrightarrow> libro_inv (libros s' l))
   \<and> (\<forall>rs s'. libro_inv (libros s l) \<and> ejecutar ops s = Inr (rs, s') \<longrightarrow>
         libro_inv (libros s' l))"
proof -
  have nuevo: "libro_inv (Libro_init t a i y c)" "disponible (Libro_init t a i y c)"
    "fecha_prestamo (Libro_init t a i y c) = None" "usuario_actual (Libro_init t a i y c) = None"
    for c
    by (simp_all add: Libro_init_def libro_inv_def)
  have item: "libro_inv b \<longrightarrow>
        libro_inv (snd (prestar ahora u b))
        \<and> (\<exists>r b'. devolver ahora b = Inr (r, b') \<and> libro_inv b')"
  proof
    assume b: "libro_inv b"
    from devolver_inv [OF b, of ahora] obtain r b' where d: "devolver ahora b = Inr (r, b')"
      by blast
    from devolver_conserva_inv [OF b d] d prestar_conserva_inv [OF b, of ahora u]
    show "libro_inv (snd (prestar ahora u b))
        \<and> (\<exists>r b'. devolver ahora b = Inr (r, b') \<and> libro_inv b')"
      by blast
  qed
  have un_paso: "\<forall>r s'. libro_inv (libros s l) \<and> paso opn s = Inr (r, s') \<longrightarrow> libro_inv (libros s' l)"
    using paso_libro_inv by blast
  have muchos: "\<forall>rs s'. libro_inv (libros s l) \<and> ejecutar ops s = Inr (rs, s') \<longrightarrow>
         libro_inv (libros s' l)"
    using ejecutar_libro_inv by blast
  from nuevo item un_paso muchos show ?thesis
    unfolding LibroFisico_init_def LibroDigital_init_def by blast
qed

theorem libro_inv_preservado_witness:
  "libro_inv libro_fisico_ej \<and> libro_inv libro_digital_ej
   \<and> libro_inv (libros mundo_ej 3)
   \<and> libro_inv (snd (prestar 7 1 libro_fisico_ej))
   \<and> (case ejecutar [OpPrestarLibro 0 1 1 3, OpPrestar 5 3 2, OpDevolver (20 * un_dia) 3,
                      OpDevolverLibro (21 * un_dia) (21 * un_dia) 1 3] mundo_ej of
        Inl e \<Rightarrow> False
      | Inr (rs, s') \<Rightarrow>
          rs = [RBool True, RBool False, RDevolucion 6 (Some 1), RMulta 0]
          \<and> libro_inv (libros s' 3) \<and> disponible (libros s' 3))"
  using libro_inv_preservado [where t = "''T''" and a = "''A''" and i = "''I''" and y = 2000
      and ub = "''U''" and ef = "''Bueno''" and np = 1 and fm = "''pdf''" and tm = 1
      and url = "''u''" and b = libro_fisico_ej and ahora = 7 and u = 1 and s = mundo_ej
      and l = 3 and opn = "OpPrestarLibro 0 1 1 3"
      and ops = "[OpPrestarLibro 0 1 1 3, OpPrestar 5 3 2, OpDevolver (20 * un_dia) 3,
                  OpDevolverLibro (21 * un_dia) (21 * un_dia) 1 3]"]
  by (simp add: ej_defs op_defs)

text \<open>
  C8.  A user made by either constructor holds at most as many books as the limit of
  the class allows and has a balance that is not negative.  Every call that returns,
  and every sequence of calls that returns, preserves both for every user that had
  them.  In one call the balance of such a user grows only when the call is
  \<open>devolver_libro\<close> of that user on a held book that is on loan for more days than
  allowed, and then by the value returned; it shrinks only when the call is
  \<open>pagar_multa\<close> of that user with a positive amount.  Over a sequence without
  \<open>devolver_libro\<close> of the user the balance does not grow, and over a sequence
  without \<open>pagar_multa\<close> of the user it does not shrink.
\<close>

theorem usuario_inv_preservado:
  "usuario_inv u (Estudiante_init ahora u n i e c sem s0)
   \<and> usuario_inv u (Profesor_init ahora u n i e d t s0)
   \<and> (\<forall>r s'. usuario_inv u s \<and> paso opn s = Inr (r, s') \<longrightarrow>
         usuario_inv u s'
         \<and> (multa_acumulada (usuarios s u) < multa_acumulada (usuarios s' u) \<longrightarrow>
              (\<exists>a1 a2 l f. opn = OpDevolverLibro a1 a2 u l
                 \<and> r = RMulta (multa_acumulada (usuarios s' u) - multa_acumulada (usuarios s u))
                 \<and> l \<in> set (listas s (Interna u)) \<and> \<not> disponible (libros s l)
                 \<and> fecha_prestamo (libros s l) = Some f
                 \<and> calcular_dias_prestamo (libros s l) < timedelta_days a1 f))
         \<and> (multa_acumulada (usuarios s' u) < multa_acumulada (usuarios s u) \<longrightarrow>
              (\<exists>p. opn = OpPagarMulta u p \<and> 0 < p)))
   \<and> (\<forall>rs s'. usuario_inv u s \<and> ejecutar ops s = Inr (rs, s') \<longrightarrow>
         usuario_inv u s'
         \<and> ((\<forall>opn\<in>set ops. \<not> es_devolucion u opn) \<longrightarrow>
              multa_acumulada (usuarios s' u) \<le> multa_acumulada (usuarios s u))
         \<and> ((\<forall>opn\<in>set ops. \<not> es_pago u opn) \<longrightarrow>
              multa_acumulada (usuarios s u) \<le> multa_acumulada (usuarios s' u)))"
proof -
  have nuevo: "usuario_inv u (Usuario_init ahora u n i e k s0)" for k
    by (simp add: usuario_inv_def Usuario_init_def limite_prestamos_def split: clase_usuario.splits)
  have un_paso: "\<forall>r s'. usuario_inv u s \<and> paso opn s = Inr (r, s') \<longrightarrow>
         usuario_inv u s'
         \<and> (multa_acumulada (usuarios s u) < multa_acumulada (usuarios s' u) \<longrightarrow>
              (\<exists>a1 a2 l f. opn = OpDevolverLibro a1 a2 u l
                 \<and> r = RMulta (multa_acumulada (usuarios s' u) - multa_acumulada (usuarios s u))
                 \<and> l \<in> set (listas s (Interna u)) \<and> \<not> disponible (libros s l)
                 \<and> fecha_prestamo (libros s l) = Some f
                 \<and> calcular_dias_prestamo (libros s l) < timedelta_days a1 f))
         \<and> (multa_acumulada (usuarios s' u) < multa_acumulada (usuarios s u) \<longrightarrow>
              (\<exists>p. opn = OpPagarMulta u p \<and> 0 < p))"
  proof (intro allI impI)
    fix r s'
    assume h: "usuario_inv u s \<and> paso opn s = Inr (r, s')"
    then have i: "usuario_inv u s" and p: "paso opn s = Inr (r, s')" by simp_all
    from i have nn: "0 \<le> multa_acumulada (usuarios s u)" by (simp add: usuario_inv_def)
    from paso_usuario_inv [OF i p] paso_usuario(3) [OF p, of u] paso_usuario(4) [OF p, of u] nn
    show "usuario_inv u s'
         \<and> (multa_acumulada (usuarios s u) < multa_acumulada (usuarios s' u) \<longrightarrow>
              (\<exists>a1 a2 l f. opn = OpDevolverLibro a1 a2 u l
                 \<and> r = RMulta (multa_acumulada (usuarios s' u) - multa_acumulada (usuarios s u))
                 \<and> l \<in> set (listas s (Interna u)) \<and> \<not> disponible (libros s l)
                 \<and> fecha_prestamo (libros s l) = Some f
                 \<and> calcular_dias_prestamo (libros s l) < timedelta_days a1 f))
         \<and> (multa_acumulada (usuarios s' u) < multa_acumulada (usuarios s u) \<longrightarrow>
              (\<exists>p. opn = OpPagarMulta u p \<and> 0 < p))"
      by blast
  qed
  have muchos: "\<forall>rs s'. usuario_inv u s \<and> ejecutar ops s = Inr (rs, s') \<longrightarrow>
         usuario_inv u s'
         \<and> ((\<forall>opn\<in>set ops. \<not> es_devolucion u opn) \<longrightarrow>
              multa_acumulada (usuarios s' u) \<le> multa_acumulada (usuarios s u))
         \<and> ((\<forall>opn\<in>set ops. \<not> es_pago u opn) \<longrightarrow>
              multa_acumulada (usuarios s u) \<le> multa_acumulada (usuarios s' u))"
  proof (intro allI impI)
    fix rs s'
    assume h: "usuario_inv u s \<and> ejecutar ops s = Inr (rs, s')"
    then have i: "usuario_inv u s" and e: "ejecutar ops s = Inr (rs, s')" by simp_all
    from i have nn: "0 \<le> multa_acumulada (usuarios s u)" by (simp add: usuario_inv_def)
    from ejecutar_usuario_inv [OF i e] ejecutar_sin_devolucion [OF e _ nn]
      ejecutar_sin_pago [OF e, where v = u]
    show "usuario_inv u s'
         \<and> ((\<forall>opn\<in>set ops. \<not> es_devolucion u opn) \<longrightarrow>
              multa_acumulada (usuarios s' u) \<le> multa_acumulada (usuarios s u))
         \<and> ((\<forall>opn\<in>set ops. \<not> es_pago u opn) \<longrightarrow>
              multa_acumulada (usuarios s u) \<le> multa_acumulada (usuarios s' u))"
      by blast
  qed
  from nuevo un_paso muchos show ?thesis
    unfolding Estudiante_init_def Profesor_init_def by blast
qed

theorem usuario_inv_preservado_witness:
  "usuario_inv 1 mundo_ej
   \<and> (case ejecutar [OpPrestarLibro 0 1 1 3,
                      OpDevolverLibro (20 * un_dia) (20 * un_dia + 1) 1 3,
                      OpPagarMulta 1 1] mundo_ej of
        Inl e \<Rightarrow> False
      | Inr (rs, s') \<Rightarrow>
          rs = [RBool True, RMulta 3, RMulta 2]
          \<and> usuario_inv 1 s' \<and> multa_acumulada (usuarios s' 1) = 2)"
  using usuario_inv_preservado [where ahora = 0 and u = 1 and n = "''N''" and i = "''I''"
      and e = "''E''" and c = "''C''" and sem = 1 and d = "''D''" and t = "''T''"
      and ?s0.0 = mundo_ej and s = mundo_ej and opn = "OpPrestarLibro 0 1 1 3"
      and ops = "[OpPrestarLibro 0 1 1 3,
                  OpDevolverLibro (20 * un_dia) (20 * un_dia + 1) 1 3,
                  OpPagarMulta 1 1]"]
  by (simp add: ej_defs op_defs usuario_inv_def)

text \<open>
  C10.  Reading the property \<open>libros_prestados\<close> yields a list object with the
  elements of the user's own list.  Whatever the client then writes into that object,
  the own list of every user and the result of \<open>puede_prestar\<close> are as before the
  read, and every later sequence of calls gives the same results, the same exception
  if any, and the same books, users and users' own lists as it gives when the object
  is left alone.
\<close>

theorem libros_prestados_es_copia:
  "(case libros_prestados u s of
      (r, s1) \<Rightarrow>
        listas s1 r = listas s (Interna u)
        \<and> listas (s1\<lparr>listas := (listas s1)(r := xs)\<rparr>) (Interna v) = listas s (Interna v)
        \<and> puede_prestar v (s1\<lparr>listas := (listas s1)(r := xs)\<rparr>) = puede_prestar v s
        \<and> observar (ejecutar ops (s1\<lparr>listas := (listas s1)(r := xs)\<rparr>))
            = observar (ejecutar ops s1))"
proof -
  define r where "r = Copia (siguiente s)"
  define s1 where "s1 = s\<lparr>listas := (listas s)(r := listas s (Interna u)),
                            siguiente := Suc (siguiente s)\<rparr>"
  define s2 where "s2 = s1\<lparr>listas := (listas s1)(r := xs)\<rparr>"
  have lp: "libros_prestados u s = (r, s1)"
    by (simp add: libros_prestados_def r_def s1_def)
  have i21: "interno s2 = interno s1"
    by (simp add: interno_eq s2_def s1_def r_def)
  have c1: "listas s1 r = listas s (Interna u)"
    by (simp add: s1_def)
  have c2: "listas s2 (Interna v) = listas s (Interna v)"
    by (simp add: s2_def s1_def r_def)
  have c3: "puede_prestar v s2 = puede_prestar v s"
    by (simp add: puede_prestar_def s2_def s1_def r_def)
  from ejecutar_interno [OF i21, of ops]
  have c4: "observar (ejecutar ops s2) = observar (ejecutar ops s1)" .
  from c1 c2 c3 c4 show ?thesis
    by (simp add: lp s2_def)
qed

theorem libros_prestados_es_copia_witness:
  "(case libros_prestados 1 mundo_prestado of
      (r, s1) \<Rightarrow>
        r = Copia 0 \<and> listas s1 r = [3]
        \<and> listas (s1\<lparr>listas := (listas s1)(r := [])\<rparr>) r = []
        \<and> listas (s1\<lparr>listas := (listas s1)(r := [])\<rparr>) (Interna 1) = [3]
        \<and> puede_prestar 1 (s1\<lparr>listas := (listas s1)(r := [])\<rparr>)
        \<and> map_sum id fst
             (ejecutar [OpDevolverLibro (20 * un_dia) (20 * un_dia + 1) 1 3,
                        OpPrestarLibro (21 * un_dia) (21 * un_dia) 1 4]
                (s1\<lparr>listas := (listas s1)(r := [])\<rparr>))
            = Inr [RMulta 3, RBool False])"
  using libros_prestados_es_copia [where u = 1 and s = mundo_prestado and xs = "[]" and v = 1
      and ops = "[OpDevolverLibro (20 * un_dia) (20 * un_dia + 1) 1 3,
                  OpPrestarLibro (21 * un_dia) (21 * un_dia) 1 4]"]
  by (simp add: mundo_prestado_def libros_prestados_def ej_defs op_defs)

section \<open>Properties of products\<close>

text \<open>
  C9, as the source has it.  A discount percentage outside the range from 0 to 100
  leaves the product as it is and returns the current price.  The constructor stores
  the price it is given, negative or not, as original and as current price; the static
  method \<open>validar_precio\<close> tells whether a price is positive, and the constructor does not
  call it.
\<close>

theorem aplicar_descuento_fuera_de_rango:
  "(porcentaje < 0 \<or> 100 < porcentaje \<longrightarrow>
      aplicar_descuento porcentaje pr = (precio_actual pr, pr))
   \<and> precio_original (fst (Producto_init n precio cat st d c k)) = precio
   \<and> precio_actual (fst (Producto_init n precio cat st d c k)) = precio
   \<and> validar_precio precio = (0 < precio)"
  by (auto simp add: aplicar_descuento_def Producto_init_def validar_precio_def)

theorem aplicar_descuento_fuera_de_rango_witness:
  "aplicar_descuento 150 producto_ej = (1200, producto_ej)
   \<and> aplicar_descuento (- 10) producto_ej = (1200, producto_ej)
   \<and> fst (aplicar_descuento 10 producto_ej) = 1080
   \<and> \<not> validar_precio (- 5)"
  using aplicar_descuento_fuera_de_rango [of 150 producto_ej]
        aplicar_descuento_fuera_de_rango [of "- 10" producto_ej]
        aplicar_descuento_fuera_de_rango [of 0 producto_ej "''Oferta''" "- 5" HOGAR 1 "[]" ProductoBase 0]
  by (simp add: producto_ej_def ProductoElectronico_init_def Producto_init_def aplicar_descuento_def)

text \<open>A product constructed with the price -5 has the price -5.\<close>

theorem negative_price_counterexample:
  "precio_actual (fst (Producto_init ''Oferta'' (- 5) HOGAR 1 [] ProductoBase 0)) = - 5
   \<and> precio_original (fst (Producto_init ''Oferta'' (- 5) HOGAR 1 [] ProductoBase 0)) = - 5"
  by (simp add: Producto_init_def)

end
